theory Spec2Isabelle
  imports Main "HOL-Library.Signed_Division"
begin

section \<open>Errors, contexts and configuration\<close>

text \<open>
  The sentinel errors of package \<open>base\<close>, the two context errors of the standard library,
  and \<open>CacheError\<close>, which wraps an error with the operation name and the key.
  \<open>Foreign\<close> stands for any other error value a wrapped store may return.
\<close>

datatype error =
    ErrKeyEmpty
  | ErrCacheMiss
  | ErrInvalidConfig
  | ErrSerialize
  | ErrDeserialize
  | ErrConnection
  | ErrLockAcquire
  | ErrLockNotHeld
  | Canceled
  | DeadlineExceeded
  | Foreign string
  | CacheError string string error

text \<open>\<open>WrapError op err key\<close> for a non-nil error and a non-empty operation name.\<close>

definition WrapError :: "string \<Rightarrow> error \<Rightarrow> string \<Rightarrow> error" where
  "WrapError op err k = CacheError op k err"

text \<open>
  \<open>errors.Is\<close>: compare, then follow \<open>Unwrap\<close>. Go compares two \<open>*CacheError\<close> values by
  address; the targets passed here are the sentinel errors, for which comparing by value and
  comparing by address agree.
\<close>

fun errors_Is :: "error \<Rightarrow> error \<Rightarrow> bool" where
  "errors_Is (CacheError op k e) t = (CacheError op k e = t \<or> errors_Is e t)"
| "errors_Is e t = (e = t)"

definition IsContextError :: "error \<Rightarrow> bool" where
  "IsContextError err = (errors_Is err Canceled \<or> errors_Is err DeadlineExceeded)"

text \<open>
  A \<open>context.Context\<close> as an operation observes it: the nil interface value, a context
  that is not done, or a context that is done with its error.
\<close>

datatype Context = CtxNil | CtxActive | CtxDone error

text \<open>Times and durations are integers (nanoseconds); the zero \<open>time.Time\<close> is 0.\<close>

type_synonym time = int
type_synonym duration = int

definition minute :: duration where
  "minute = 60000000000"

record Config =
  TTL :: duration
  Prefix :: string
  MaxSize :: int
  EvictionPolicy :: string

section \<open>Metrics collector\<close>

record OperationStats =
  Count :: int
  TotalItems :: int
  TotalDuration :: duration
  MinDuration :: duration
  MaxDuration :: duration
  Hits :: int
  Misses :: int

record SnapshotStats =
  sCount :: int
  sTotalItems :: int
  sMinDuration :: duration
  sMaxDuration :: duration
  sAvgDuration :: duration
  sHits :: int
  sMisses :: int
  sErrors :: int

record Collector =
  Enabled :: bool
  operations :: "string \<rightharpoonup> OperationStats"
  errors :: "string \<rightharpoonup> int"

definition zeroStats :: OperationStats where
  "zeroStats = \<lparr>Count = 0, TotalItems = 0, TotalDuration = 0, MinDuration = 0,
     MaxDuration = 0, Hits = 0, Misses = 0\<rparr>"

text \<open>
  \<open>NewCollector\<close> fills in the two maps only: the \<open>cfg\<close> field keeps its zero value,
  whose \<open>Enabled\<close> is false.
\<close>

definition NewCollector :: Collector where
  "NewCollector = \<lparr>Enabled = False, operations = Map.empty, errors = Map.empty\<rparr>"

definition record_op :: "string \<Rightarrow> (OperationStats \<Rightarrow> OperationStats) \<Rightarrow> Collector \<Rightarrow> Collector" where
  "record_op op fn m =
     (let stat = (case operations m op of None \<Rightarrow> zeroStats | Some s \<Rightarrow> s)
      in m\<lparr>operations := (operations m)(op \<mapsto> fn stat)\<rparr>)"

definition RecordOperation :: "string \<Rightarrow> duration \<Rightarrow> int \<Rightarrow> Collector \<Rightarrow> Collector" where
  "RecordOperation op dur itemCount m =
     (if \<not> Enabled m \<or> op = [] \<or> itemCount \<le> 0 then m
      else record_op op (\<lambda>s.
        let s1 = s\<lparr>Count := Count s + 1, TotalItems := TotalItems s + itemCount,
                   TotalDuration := TotalDuration s + dur\<rparr>;
            s2 = (if MinDuration s1 = 0 \<or> dur < MinDuration s1
                  then s1\<lparr>MinDuration := dur\<rparr> else s1)
        in (if dur > MaxDuration s2 then s2\<lparr>MaxDuration := dur\<rparr> else s2)) m)"

definition RecordHit :: "string \<Rightarrow> int \<Rightarrow> Collector \<Rightarrow> Collector" where
  "RecordHit op n m =
     (if \<not> Enabled m \<or> op = [] \<or> n \<le> 0 then m
      else record_op op (\<lambda>s. s\<lparr>Hits := Hits s + n\<rparr>) m)"

definition RecordMiss :: "string \<Rightarrow> int \<Rightarrow> Collector \<Rightarrow> Collector" where
  "RecordMiss op n m =
     (if \<not> Enabled m \<or> op = [] \<or> n \<le> 0 then m
      else record_op op (\<lambda>s. s\<lparr>Misses := Misses s + n\<rparr>) m)"

definition RecordError :: "string \<Rightarrow> Collector \<Rightarrow> Collector" where
  "RecordError op m =
     (if \<not> Enabled m \<or> op = [] then m
      else m\<lparr>errors := (errors m)(op \<mapsto> (case errors m op of None \<Rightarrow> 0 | Some n \<Rightarrow> n) + 1)\<rparr>)"

text \<open>
  \<open>Snapshot\<close> returns the nil map (\<open>None\<close>) when the collector is disabled. Reading a
  missing key of a Go map, nil or not, yields the zero value: \<open>snapshot_at\<close>.
\<close>

definition Snapshot :: "Collector \<Rightarrow> (string \<rightharpoonup> SnapshotStats) option" where
  "Snapshot m =
     (if \<not> Enabled m then None
      else Some (\<lambda>op. case operations m op of
          None \<Rightarrow> None
        | Some s \<Rightarrow> Some \<lparr>sCount = Count s, sTotalItems = TotalItems s,
            sMinDuration = MinDuration s, sMaxDuration = MaxDuration s,
            sAvgDuration = (if Count s > 0 then TotalDuration s sdiv Count s else 0),
            sHits = Hits s, sMisses = Misses s,
            sErrors = (case errors m op of None \<Rightarrow> 0 | Some n \<Rightarrow> n)\<rparr>))"

definition zeroSnapshot :: SnapshotStats where
  "zeroSnapshot = \<lparr>sCount = 0, sTotalItems = 0, sMinDuration = 0, sMaxDuration = 0,
     sAvgDuration = 0, sHits = 0, sMisses = 0, sErrors = 0\<rparr>"

definition snapshot_at :: "(string \<rightharpoonup> SnapshotStats) option \<Rightarrow> string \<Rightarrow> SnapshotStats" where
  "snapshot_at snap op =
     (case snap of None \<Rightarrow> zeroSnapshot
      | Some f \<Rightarrow> (case f op of None \<Rightarrow> zeroSnapshot | Some s \<Rightarrow> s))"

section \<open>Base: key, TTL and context helpers\<close>

record Base =
  Cfg :: Config
  Collector :: Collector

definition NewBase :: "Config \<Rightarrow> Base" where
  "NewBase cfg = \<lparr>Cfg = cfg, Collector = NewCollector\<rparr>"

definition FullKey :: "Base \<Rightarrow> string \<Rightarrow> string" where
  "FullKey b k = (if Prefix (Cfg b) = [] then k else Prefix (Cfg b) @ k)"

text \<open>
  Keys are Go strings: byte sequences, read as UTF-8 by \<open>strings.TrimSpace\<close>. A \<open>char\<close> is a
  byte and a rune is a natural number. The functions below follow the standard library:
  \<open>utf8.DecodeRuneInString\<close> and \<open>utf8.DecodeLastRuneInString\<close> (an invalid or incomplete
  encoding decodes to \<open>RuneError\<close> with width 1), \<open>unicode.IsSpace\<close>, and \<open>strings.TrimSpace\<close>
  with its helpers \<open>indexFunc\<close>, \<open>lastIndexFunc\<close>, \<open>TrimLeftFunc\<close>, \<open>TrimRightFunc\<close> and
  \<open>TrimFunc\<close>, here specialised to the predicate \<open>unicode.IsSpace\<close> and the truth value false.
\<close>

definition byte :: "char \<Rightarrow> nat" where
  "byte c = of_char c"

definition RuneError :: nat where
  "RuneError = 0xFFFD"

text \<open>
  The table \<open>first\<close> with \<open>acceptRanges\<close>: for a lead byte of a multi-byte encoding, the
  length of the encoding and the range accepted for the second byte; \<open>None\<close> for an ASCII
  byte and for a byte that cannot start an encoding.
\<close>

definition first :: "nat \<Rightarrow> (nat \<times> nat \<times> nat) option" where
  "first s0 =
     (if 0xC2 \<le> s0 \<and> s0 \<le> 0xDF then Some (2, 0x80, 0xBF)
      else if s0 = 0xE0 then Some (3, 0xA0, 0xBF)
      else if 0xE1 \<le> s0 \<and> s0 \<le> 0xEC then Some (3, 0x80, 0xBF)
      else if s0 = 0xED then Some (3, 0x80, 0x9F)
      else if 0xEE \<le> s0 \<and> s0 \<le> 0xEF then Some (3, 0x80, 0xBF)
      else if s0 = 0xF0 then Some (4, 0x90, 0xBF)
      else if 0xF1 \<le> s0 \<and> s0 \<le> 0xF3 then Some (4, 0x80, 0xBF)
      else if s0 = 0xF4 then Some (4, 0x80, 0x8F)
      else None)"

definition DecodeRuneInString :: "string \<Rightarrow> nat \<times> nat" where
  "DecodeRuneInString s =
     (if s = [] then (RuneError, 0)
      else let s0 = byte (s ! 0) in
        case first s0 of
          None \<Rightarrow> (if s0 < 0x80 then (s0, 1) else (RuneError, 1))
        | Some (sz, lo, hi) \<Rightarrow>
            if length s < sz then (RuneError, 1)
            else let s1 = byte (s ! 1) in
              if s1 < lo \<or> hi < s1 then (RuneError, 1)
              else if sz \<le> 2 then ((s0 mod 32) * 64 + s1 mod 64, 2)
              else let s2 = byte (s ! 2) in
                if s2 < 0x80 \<or> 0xBF < s2 then (RuneError, 1)
                else if sz \<le> 3 then ((s0 mod 16) * 4096 + (s1 mod 64) * 64 + s2 mod 64, 3)
                else let s3 = byte (s ! 3) in
                  if s3 < 0x80 \<or> 0xBF < s3 then (RuneError, 1)
                  else ((s0 mod 8) * 262144 + (s1 mod 64) * 4096 + (s2 mod 64) * 64
                        + s3 mod 64, 4))"

definition RuneStart :: "char \<Rightarrow> bool" where
  "RuneStart c = (byte c < 0x80 \<or> 0xC0 \<le> byte c)"

text \<open>
  The backward loop of \<open>DecodeLastRuneInString\<close>: from \<open>start\<close> down to \<open>lim\<close>, stop at the
  first byte that can start an encoding; past \<open>lim\<close> when there is none.
\<close>

function scanBack :: "string \<Rightarrow> int \<Rightarrow> int \<Rightarrow> int" where
  "scanBack s lim start =
     (if start \<ge> lim \<and> start \<ge> 0
      then (if RuneStart (s ! nat start) then start else scanBack s lim (start - 1))
      else start)"
  by pat_completeness auto
termination
  by (relation "measure (\<lambda>(s, lim, start). nat (start + 1))") auto

declare scanBack.simps [simp del]

definition DecodeLastRuneInString :: "string \<Rightarrow> nat \<times> nat" where
  "DecodeLastRuneInString s =
     (if s = [] then (RuneError, 0)
      else let n = int (length s); r = byte (s ! nat (n - 1)) in
        if r < 0x80 then (r, 1)
        else let lim = max 0 (n - 4);
                 start = max 0 (scanBack s lim (n - 2));
                 (r, size) = DecodeRuneInString (drop (nat start) s)
             in if start + int size \<noteq> n then (RuneError, 1) else (r, size))"

text \<open>\<open>unicode.IsSpace\<close>: the Latin-1 cases, then the \<open>White_Space\<close> table.\<close>

definition IsSpace :: "nat \<Rightarrow> bool" where
  "IsSpace r =
     (if r \<le> 0xFF
      then r = 0x09 \<or> r = 0x0A \<or> r = 0x0B \<or> r = 0x0C \<or> r = 0x0D \<or> r = 0x20
         \<or> r = 0x85 \<or> r = 0xA0
      else r = 0x1680 \<or> (0x2000 \<le> r \<and> r \<le> 0x200A) \<or> (0x2028 \<le> r \<and> r \<le> 0x2029)
         \<or> r = 0x202F \<or> r = 0x205F \<or> r = 0x3000)"

text \<open>
  \<open>indexFunc s i\<close>: the index, counted from \<open>i\<close>, of the first rune of \<open>s\<close> that is not white
  space, or \<open>-1\<close>. \<open>lastIndexFunc s\<close>: the index of the last such rune, or \<open>-1\<close>.
\<close>

function indexFunc :: "string \<Rightarrow> nat \<Rightarrow> int" where
  "indexFunc s i =
     (if s = [] then - 1
      else let (r, n) = DecodeRuneInString s in
        if \<not> IsSpace r then int i else indexFunc (drop n s) (i + n))"
  by pat_completeness auto
termination
proof (relation "measure (\<lambda>(s, i). length s)")
  show "wf (measure (\<lambda>(s, i). length s))" by simp
next
  fix s :: string and i x r n
  assume a: "s \<noteq> []" "x = DecodeRuneInString s" "(r, n) = x"
  have "0 < snd (DecodeRuneInString s)"
    using a(1) by (auto simp: DecodeRuneInString_def Let_def split: option.splits)
  then have "0 < n" using a(2,3) by (metis snd_conv)
  then show "((drop n s, i + n), (s, i)) \<in> measure (\<lambda>(s, i). length s)"
    using a(1) by simp
qed

declare indexFunc.simps [simp del]

function lastIndexFunc :: "string \<Rightarrow> int" where
  "lastIndexFunc s =
     (if s = [] then - 1
      else let (r, size) = DecodeLastRuneInString s; i = length s - size in
        if \<not> IsSpace r then int i else lastIndexFunc (take i s))"
  by pat_completeness auto
termination
proof (relation "measure length")
  show "wf (measure length)" by simp
next
  fix s :: string and x r n i
  assume a: "s \<noteq> []" "x = DecodeLastRuneInString s" "(r, n) = x" "i = length s - n"
  have le: "scanBack s lim start \<le> start" for lim start
  proof (induction s lim start rule: scanBack.induct)
    case (1 s lim start)
    then show ?case by (subst scanBack.simps) auto
  qed
  let ?start = "max 0 (scanBack s (max 0 (int (length s) - 4)) (int (length s) - 2))"
  have "?start < int (length s)"
    using le [of "max 0 (int (length s) - 4)" "int (length s) - 2"] a(1) by auto
  then have "?start + int (snd (DecodeRuneInString (drop (nat ?start) s))) = int (length s)
      \<Longrightarrow> 0 < snd (DecodeRuneInString (drop (nat ?start) s))"
    by linarith
  then have "0 < snd (DecodeLastRuneInString s)"
    using a(1) by (auto simp: DecodeLastRuneInString_def Let_def split: prod.splits)
  then have "0 < n" using a(2,3) by (metis snd_conv)
  then show "(take i s, s) \<in> measure length"
    using a(1,4) by simp
qed

declare lastIndexFunc.simps [simp del]

definition TrimLeftFunc :: "string \<Rightarrow> string" where
  "TrimLeftFunc s = (let i = indexFunc s 0 in if i = - 1 then [] else drop (nat i) s)"

definition TrimRightFunc :: "string \<Rightarrow> string" where
  "TrimRightFunc s =
     (let i = lastIndexFunc s in
      if i \<ge> 0 \<and> byte (s ! nat i) \<ge> 0x80
      then take (nat i + snd (DecodeRuneInString (drop (nat i) s))) s
      else take (nat (i + 1)) s)"

definition TrimFunc :: "string \<Rightarrow> string" where
  "TrimFunc s = TrimRightFunc (TrimLeftFunc s)"

text \<open>The table \<open>asciiSpace\<close>: tab, line feed, vertical tab, form feed, carriage return, space.\<close>

definition asciiSpace :: "char \<Rightarrow> bool" where
  "asciiSpace c = (c = CHR 0x09 \<or> c = CHR 0x0A \<or> c = CHR 0x0B \<or> c = CHR 0x0C
      \<or> c = CHR 0x0D \<or> c = CHR 0x20)"

text \<open>
  \<open>strings.TrimSpace\<close>: skip the leading ASCII white space; at a byte that is not ASCII, hand
  the rest to \<open>TrimFunc\<close>. Otherwise skip the trailing ASCII white space; at a byte that is
  not ASCII, hand what is left to \<open>TrimRightFunc\<close>.
\<close>

definition TrimSpace :: "string \<Rightarrow> string" where
  "TrimSpace s =
     (let rest = dropWhile asciiSpace s in
      if rest \<noteq> [] \<and> byte (hd rest) \<ge> 0x80 then TrimFunc rest
      else let body = rev (dropWhile asciiSpace (rev rest)) in
        if body \<noteq> [] \<and> byte (last body) \<ge> 0x80 then TrimRightFunc body else body)"

definition ValidateKey :: "Base \<Rightarrow> string \<Rightarrow> error option" where
  "ValidateKey b k = (if TrimSpace k = [] then Some ErrKeyEmpty else None)"

definition ResolveTTL :: "Base \<Rightarrow> duration \<Rightarrow> duration" where
  "ResolveTTL b ttl = (if ttl > 0 then ttl else TTL (Cfg b))"

definition IsCacheMiss :: "error \<Rightarrow> bool" where
  "IsCacheMiss err = errors_Is err ErrCacheMiss"

definition CheckContext :: "Base \<Rightarrow> Context \<Rightarrow> error option" where
  "CheckContext b ctx = (case ctx of CtxNil \<Rightarrow> None | CtxActive \<Rightarrow> None | CtxDone e \<Rightarrow> Some e)"

section \<open>In-memory engine\<close>

text \<open>
  The operations of the engine run one at a time (the mutex of the engine serialises them),
  each at the wall-clock time \<open>now\<close> that \<open>time.Now\<close> yields during the call. The background
  sweep is not part of the model: it is the engine with \<open>CleanupInterval\<close> not positive, which
  starts no sweep. Counters are unbounded integers.
\<close>

text \<open>
  \<open>items\<close> is the index from full key to list element (the element carries the item);
  \<open>lru\<close> is the \<open>container/list\<close> of elements, front first, each element named by the
  key of its item; \<open>length_mc\<close> is the atomic counter \<open>length\<close>.
\<close>

record 'v memoryItem =
  key :: string
  val :: 'v
  expiresAt :: time

record 'v memoryCache =
  base :: Base
  items :: "string \<rightharpoonup> 'v memoryItem"
  lru :: "string list"
  capacity :: int
  length_mc :: int

definition NewMemory :: "Config \<Rightarrow> error + 'v memoryCache" where
  "NewMemory cfg =
     (if EvictionPolicy cfg \<noteq> [] \<and> EvictionPolicy cfg \<noteq> ''lru''
      then Inl (WrapError ''set'' ErrInvalidConfig [])
      else Inr \<lparr>base = NewBase cfg, items = Map.empty, lru = [], capacity = MaxSize cfg,
                length_mc = 0\<rparr>)"

definition expired :: "time \<Rightarrow> 'v memoryItem \<Rightarrow> bool" where
  "expired now it = (expiresAt it \<noteq> 0 \<and> now > expiresAt it)"

text \<open>\<open>list.Remove\<close> and \<open>list.MoveToFront\<close> leave the list alone when the element is not in it.\<close>

definition MoveToFront :: "string \<Rightarrow> string list \<Rightarrow> string list" where
  "MoveToFront e l = (if e \<in> set l then e # remove1 e l else l)"

definition remove :: "string \<Rightarrow> 'v memoryCache \<Rightarrow> 'v memoryCache" where
  "remove e c = c\<lparr>lru := remove1 e (lru c), items := (items c)(e := None),
                   length_mc := length_mc c - 1\<rparr>"

definition evict :: "'v memoryCache \<Rightarrow> 'v memoryCache" where
  "evict c = (if lru c = [] then c else remove (last (lru c)) c)"

definition Get :: "'v memoryCache \<Rightarrow> Context \<Rightarrow> string \<Rightarrow> time \<Rightarrow> (error + 'v) \<times> 'v memoryCache" where
  "Get c ctx k now =
     (case ValidateKey (base c) k of Some err \<Rightarrow> (Inl err, c) | None \<Rightarrow>
      case CheckContext (base c) ctx of Some err \<Rightarrow> (Inl err, c) | None \<Rightarrow>
      let fk = FullKey (base c) k in
      case items c fk of
        None \<Rightarrow> (Inl (WrapError ''get'' ErrCacheMiss k), c)
      | Some item \<Rightarrow>
          if expired now item then (Inl (WrapError ''get'' ErrCacheMiss k), remove fk c)
          else (Inr (val item), c\<lparr>lru := MoveToFront fk (lru c)\<rparr>))"

definition Set_mc :: "'v memoryCache \<Rightarrow> Context \<Rightarrow> string \<Rightarrow> 'v \<Rightarrow> duration \<Rightarrow> time
    \<Rightarrow> error option \<times> 'v memoryCache" where
  "Set_mc c ctx k v ttl0 now =
     (case ValidateKey (base c) k of Some err \<Rightarrow> (Some err, c) | None \<Rightarrow>
      case CheckContext (base c) ctx of Some err \<Rightarrow> (Some err, c) | None \<Rightarrow>
      let fk = FullKey (base c) k;
          ttl = ResolveTTL (base c) ttl0;
          exp = (if ttl > 0 then now + ttl else 0)
      in case items c fk of
        Some it \<Rightarrow>
          (None, c\<lparr>items := (items c)(fk \<mapsto> it\<lparr>val := v, expiresAt := exp\<rparr>),
                    lru := MoveToFront fk (lru c)\<rparr>)
      | None \<Rightarrow>
          let c1 = (if capacity c > 0 \<and> length_mc c \<ge> capacity c then evict c else c)
          in (None, c1\<lparr>lru := fk # lru c1,
                        items := (items c1)(fk \<mapsto> \<lparr>key = fk, val = v, expiresAt = exp\<rparr>),
                        length_mc := length_mc c1 + 1\<rparr>))"

fun delete_keys :: "string list \<Rightarrow> 'v memoryCache \<Rightarrow> 'v memoryCache" where
  "delete_keys [] c = c"
| "delete_keys (k # ks) c =
     (let fk = FullKey (base c) k
      in delete_keys ks (case items c fk of Some e \<Rightarrow> remove fk c | None \<Rightarrow> c))"

definition Delete :: "'v memoryCache \<Rightarrow> Context \<Rightarrow> string list \<Rightarrow> error option \<times> 'v memoryCache" where
  "Delete c ctx ks =
     (case CheckContext (base c) ctx of Some err \<Rightarrow> (Some err, c)
      | None \<Rightarrow> (None, delete_keys ks c))"

text \<open>\<open>Exists\<close> and \<open>DeleteByPrefix\<close> name their context parameter \<open>_\<close>: it is not read.\<close>

definition Exists :: "'v memoryCache \<Rightarrow> Context \<Rightarrow> string \<Rightarrow> time \<Rightarrow> (error + bool) \<times> 'v memoryCache" where
  "Exists c ctx k now =
     (case ValidateKey (base c) k of Some err \<Rightarrow> (Inl err, c) | None \<Rightarrow>
      let fk = FullKey (base c) k in
      case items c fk of
        None \<Rightarrow> (Inr False, c)
      | Some it \<Rightarrow> if expired now it then (Inr False, remove fk c) else (Inr True, c))"

definition Clear :: "'v memoryCache \<Rightarrow> Context \<Rightarrow> error option \<times> 'v memoryCache" where
  "Clear c ctx =
     (case CheckContext (base c) ctx of Some err \<Rightarrow> (Some err, c)
      | None \<Rightarrow> (None, c\<lparr>items := Map.empty, lru := [], length_mc := 0\<rparr>))"

definition Len :: "'v memoryCache \<Rightarrow> Context \<Rightarrow> error + int" where
  "Len c ctx =
     (case CheckContext (base c) ctx of Some err \<Rightarrow> Inl err | None \<Rightarrow> Inr (length_mc c))"

text \<open>
  \<open>DeleteByPrefix\<close> ranges over the index and removes every element whose full key starts
  with the full prefix; the count is the number of keys removed.
\<close>

definition DeleteByPrefix :: "'v memoryCache \<Rightarrow> Context \<Rightarrow> string \<Rightarrow> (error + int) \<times> 'v memoryCache" where
  "DeleteByPrefix c ctx p =
     (let fp = FullKey (base c) p;
          hit = (\<lambda>k. items c k \<noteq> None \<and> take (length fp) k = fp);
          n = int (card {k. hit k})
      in (Inr n, c\<lparr>lru := filter (\<lambda>k. \<not> hit k) (lru c),
                    items := (\<lambda>k. if hit k then None else items c k),
                    length_mc := length_mc c - n\<rparr>))"

definition Ping :: "'v memoryCache \<Rightarrow> Context \<Rightarrow> error option" where
  "Ping c ctx = CheckContext (base c) ctx"

text \<open>\<open>config.DefaultConfig\<close>, restricted to the fields modelled here.\<close>

definition DefaultConfig :: Config where
  "DefaultConfig = \<lparr>TTL = 5 * minute, Prefix = ''cache:'', MaxSize = 1024, EvictionPolicy = ''lru''\<rparr>"

text \<open>The store a freshly constructed engine starts with.\<close>

definition emptyMemory :: "Config \<Rightarrow> 'v memoryCache" where
  "emptyMemory cfg = \<lparr>base = NewBase cfg, items = Map.empty, lru = [], capacity = MaxSize cfg,
                       length_mc = 0\<rparr>"

section \<open>Representation invariant and operation sequences\<close>

text \<open>
  The index and the list hold the same keys, the list has no duplicates, and the counter is
  the length of the list.
\<close>

definition wf :: "'v memoryCache \<Rightarrow> bool" where
  "wf c = (distinct (lru c) \<and> set (lru c) = dom (items c) \<and> length_mc c = int (length (lru c)))"

text \<open>
  A call of one of the operations \<open>Get\<close>, \<open>Set\<close>, \<open>Delete\<close>, \<open>Clear\<close>, with the context the
  caller passes and the wall-clock time at which the call runs.
\<close>

datatype 'v call =
    CallGet Context string time
  | CallSet Context string 'v duration time
  | CallDelete Context "string list"
  | CallClear Context

text \<open>
  A cache together with a logical clock that counts calls and, for every full key, the
  clock value of the last call that touched it (a \<open>Get\<close> that returned its value or a \<open>Set\<close>
  that stored it). The clock and the stamps are bookkeeping of the model; the operations do
  not read them.
\<close>

record 'v traced =
  mem :: "'v memoryCache"
  clock :: nat
  stamp :: "string \<Rightarrow> nat"

definition touch :: "string \<Rightarrow> 'v traced \<Rightarrow> 'v traced" where
  "touch fk t = t\<lparr>stamp := (stamp t)(fk := clock t)\<rparr>"

fun step :: "'v traced \<Rightarrow> 'v call \<Rightarrow> 'v traced" where
  "step t (CallGet ctx k now) =
     (case Get (mem t) ctx k now of
        (Inr v, c) \<Rightarrow> (touch (FullKey (base (mem t)) k) t)\<lparr>mem := c, clock := clock t + 1\<rparr>
      | (Inl e, c) \<Rightarrow> t\<lparr>mem := c, clock := clock t + 1\<rparr>)"
| "step t (CallSet ctx k v ttl now) =
     (case Set_mc (mem t) ctx k v ttl now of
        (None, c) \<Rightarrow> (touch (FullKey (base (mem t)) k) t)\<lparr>mem := c, clock := clock t + 1\<rparr>
      | (Some e, c) \<Rightarrow> t\<lparr>mem := c, clock := clock t + 1\<rparr>)"
| "step t (CallDelete ctx ks) = t\<lparr>mem := snd (Delete (mem t) ctx ks), clock := clock t + 1\<rparr>"
| "step t (CallClear ctx) = t\<lparr>mem := snd (Clear (mem t) ctx), clock := clock t + 1\<rparr>"

definition run :: "'v traced \<Rightarrow> 'v call list \<Rightarrow> 'v traced" where
  "run t cs = foldl step t cs"

definition start :: "Config \<Rightarrow> 'v traced" where
  "start cfg = \<lparr>mem = emptyMemory cfg, clock = 0, stamp = (\<lambda>_. 0)\<rparr>"






text \<open>
  A concrete engine of capacity 2 and a history on it: two insertions, then a read of the
  first key; and three insertions of distinct keys.
\<close>

definition cfg2 :: Config where
  "cfg2 = DefaultConfig\<lparr>MaxSize := 2\<rparr>"



text \<open>A store with one entry that expires at time 1001.\<close>

definition stale :: "string memoryCache" where
  "stale = snd (Set_mc (emptyMemory DefaultConfig) CtxActive ''k'' ''v'' 1 1000)"

section \<open>Advanced decorator\<close>

text \<open>
  The interface \<open>Cache\<close> as a table of methods over the state \<open>'s\<close> of the wrapped store,
  with the optional capabilities \<open>PipelineGetter\<close> and \<open>DistributedLocker\<close> present or absent
  (the outcome of the type assertions), and the wall clock read by \<open>time.Now\<close>. A method
  that returns \<open>(T, error)\<close> returns a sum: callers ignore the value next to an error.
\<close>

record 's DistributedLocker =
  TryLock :: "Context \<Rightarrow> string \<Rightarrow> duration \<Rightarrow> 's \<Rightarrow> (bool \<times> error option) \<times> 's"
  Unlock :: "Context \<Rightarrow> string \<Rightarrow> 's \<Rightarrow> error option \<times> 's"

record ('s, 'v) Cache =
  cache_Get :: "Context \<Rightarrow> string \<Rightarrow> 's \<Rightarrow> (error + 'v) \<times> 's"
  cache_Set :: "Context \<Rightarrow> string \<Rightarrow> 'v \<Rightarrow> duration \<Rightarrow> 's \<Rightarrow> error option \<times> 's"
  pipelineGetter :: "(Context \<Rightarrow> string list \<Rightarrow> 's
      \<Rightarrow> ((string \<rightharpoonup> 'v) option \<times> error option) \<times> 's) option"
  locker :: "'s DistributedLocker option"
  time_Now :: "'s \<Rightarrow> time"

text \<open>
  The decorator: the wrapped store, its own \<open>Base\<close> (with its own collector) and the
  configuration, together with the state its methods act on: the state of the wrapped
  store and the state \<open>'u\<close> of the caller, on which a compute callback acts. \<open>a_zero\<close> is the
  zero value of the type parameter \<open>T\<close>.
\<close>

record ('s, 'u, 'v) advancedCache =
  a_cache :: "('s, 'v) Cache"
  a_base :: Base
  a_cfg :: Config
  a_zero :: 'v
  a_store :: 's
  a_env :: 'u

definition NewAdvancedCache :: "('s, 'v) Cache \<Rightarrow> Config \<Rightarrow> 'v \<Rightarrow> 's \<Rightarrow> 'u
    \<Rightarrow> ('s, 'u, 'v) advancedCache" where
  "NewAdvancedCache c cfg z s u =
     \<lparr>a_cache = c, a_base = NewBase cfg, a_cfg = cfg, a_zero = z, a_store = s, a_env = u\<rparr>"

text \<open>The metrics helpers of \<open>Base\<close>, acting on the collector of the decorator.\<close>

definition collect :: "(Collector \<Rightarrow> Collector) \<Rightarrow> ('s, 'u, 'v) advancedCache
    \<Rightarrow> ('s, 'u, 'v) advancedCache" where
  "collect f a = a\<lparr>a_base := (a_base a)\<lparr>Collector := f (Collector (a_base a))\<rparr>\<rparr>"

text \<open>
  \<open>withMetrics\<close>: the closure \<open>fn\<close> returns an error and acts on the variables it captures
  (\<open>'c\<close>) and on the decorator.
\<close>

definition withMetrics :: "string \<Rightarrow> int
    \<Rightarrow> ('c \<times> ('s, 'u, 'v) advancedCache \<Rightarrow> error option \<times> 'c \<times> ('s, 'u, 'v) advancedCache)
    \<Rightarrow> 'c \<times> ('s, 'u, 'v) advancedCache \<Rightarrow> error option \<times> 'c \<times> ('s, 'u, 'v) advancedCache" where
  "withMetrics op n fn w =
     (let start = time_Now (a_cache (snd w)) (a_store (snd w));
          (err, c, a) = fn w;
          a1 = collect (RecordOperation op (time_Now (a_cache a) (a_store a) - start) n) a;
          a2 = (if err \<noteq> None then collect (RecordError op) a1 else a1)
      in (err, c, a2))"

definition A_Get :: "('s, 'u, 'v) advancedCache \<Rightarrow> Context \<Rightarrow> string
    \<Rightarrow> ('v \<times> error option) \<times> ('s, 'u, 'v) advancedCache" where
  "A_Get a ctx k =
     (case ValidateKey (a_base a) k of Some err \<Rightarrow> ((a_zero a, Some err), a) | None \<Rightarrow>
      case CheckContext (a_base a) ctx of Some err \<Rightarrow> ((a_zero a, Some err), a) | None \<Rightarrow>
      let (err, val, a1) = withMetrics ''get'' 1 (\<lambda>(val, a).
            let (r, s) = cache_Get (a_cache a) ctx k (a_store a);
                a1 = a\<lparr>a_store := s\<rparr>
            in case r of
                 Inl err \<Rightarrow> (Some err, val,
                   if errors_Is err ErrCacheMiss then collect (RecordMiss ''get'' 1) a1 else a1)
               | Inr v \<Rightarrow> (None, v, collect (RecordHit ''get'' 1) a1)) (a_zero a, a)
      in ((val, err), a1))"

definition A_Set :: "('s, 'u, 'v) advancedCache \<Rightarrow> Context \<Rightarrow> string \<Rightarrow> 'v \<Rightarrow> duration
    \<Rightarrow> error option \<times> ('s, 'u, 'v) advancedCache" where
  "A_Set a ctx k v ttl0 =
     (case ValidateKey (a_base a) k of Some err \<Rightarrow> (Some err, a) | None \<Rightarrow>
      let ttl = ResolveTTL (a_base a) ttl0;
          (err, u, a1) = withMetrics ''set'' 1 (\<lambda>(u, a).
            let (err, s) = cache_Set (a_cache a) ctx k v ttl (a_store a)
            in (err, u, a\<lparr>a_store := s\<rparr>)) ((), a)
      in (err, a1))"

definition second :: duration where
  "second = 1000000000"

definition tryLock :: "('s, 'u, 'v) advancedCache \<Rightarrow> Context \<Rightarrow> string
    \<Rightarrow> error option \<times> ('s, 'u, 'v) advancedCache" where
  "tryLock a ctx k =
     (case locker (a_cache a) of
        None \<Rightarrow> (None, a)
      | Some l \<Rightarrow>
          let ((ok, err), s) = TryLock l ctx (''lock:'' @ k) (30 * second) (a_store a)
          in if err \<noteq> None \<or> \<not> ok then (err, a\<lparr>a_store := s\<rparr>) else (None, a\<lparr>a_store := s\<rparr>))"

definition unlock :: "('s, 'u, 'v) advancedCache \<Rightarrow> Context \<Rightarrow> string
    \<Rightarrow> ('s, 'u, 'v) advancedCache" where
  "unlock a ctx k =
     (case locker (a_cache a) of
        None \<Rightarrow> a
      | Some l \<Rightarrow>
          let (err, s) = Unlock l ctx (''lock:'' @ k) (a_store a);
              a1 = a\<lparr>a_store := s\<rparr>
          in if err \<noteq> None then collect (RecordError ''get_or_set_locked'') a1 else a1)"

text \<open>
  \<open>getOrSet\<close>. The compute function \<open>fn\<close> acts on the state of the caller. The deferred
  \<open>unlock\<close> runs when the closure returns, on every path after the lock attempt succeeded.
\<close>

definition getOrSet :: "('s, 'u, 'v) advancedCache \<Rightarrow> Context \<Rightarrow> string \<Rightarrow> duration
    \<Rightarrow> ('u \<Rightarrow> (error + 'v) \<times> 'u) \<Rightarrow> bool \<Rightarrow> ('v \<times> error option) \<times> ('s, 'u, 'v) advancedCache" where
  "getOrSet a ctx k ttl fn locked =
     (let op = (if locked then ''get_or_set_locked'' else ''get_or_set'');
          (err, result, a1) = withMetrics op 1 (\<lambda>(result, a).
            let ((val, err), a1) = A_Get a ctx k in
            case err of
              None \<Rightarrow> (None, val, a1)
            | Some e \<Rightarrow>
                if \<not> errors_Is e ErrCacheMiss then (Some e, result, a1)
                else
                  let (lerr, a2) = (if locked then tryLock a1 ctx k else (None, a1)) in
                  case lerr of
                    Some le \<Rightarrow> (Some le, result, a2)
                  | None \<Rightarrow>
                      let deferred = (\<lambda>a. if locked then unlock a ctx k else a);
                          (r, u) = fn (a_env a2);
                          a3 = a2\<lparr>a_env := u\<rparr>
                      in case r of
                           Inl fe \<Rightarrow> (Some fe, result, deferred a3)
                         | Inr v \<Rightarrow>
                             let (serr, a4) = A_Set a3 ctx k v ttl
                             in (None, v, deferred a4)) (a_zero a, a)
      in ((result, err), a1))"

definition GetOrSet :: "('s, 'u, 'v) advancedCache \<Rightarrow> Context \<Rightarrow> string \<Rightarrow> duration
    \<Rightarrow> ('u \<Rightarrow> (error + 'v) \<times> 'u) \<Rightarrow> ('v \<times> error option) \<times> ('s, 'u, 'v) advancedCache" where
  "GetOrSet a ctx k ttl fn = getOrSet a ctx k ttl fn False"

definition GetOrSetLocked :: "('s, 'u, 'v) advancedCache \<Rightarrow> Context \<Rightarrow> string \<Rightarrow> duration
    \<Rightarrow> ('u \<Rightarrow> (error + 'v) \<times> 'u) \<Rightarrow> ('v \<times> error option) \<times> ('s, 'u, 'v) advancedCache" where
  "GetOrSetLocked a ctx k ttl fn = getOrSet a ctx k ttl fn True"


section \<open>Emulated pipelined get\<close>

text \<open>\<open>sync.Once\<close> around the assignment of \<open>firstErr\<close>: only the first assignment takes effect.\<close>

definition once :: "error option \<Rightarrow> error \<Rightarrow> error option" where
  "once firstErr e = (case firstErr of None \<Rightarrow> Some e | Some x \<Rightarrow> Some x)"

definition observe :: "error option \<Rightarrow> Context" where
  "observe e = (case e of None \<Rightarrow> CtxActive | Some x \<Rightarrow> CtxDone x)"

text \<open>
  \<open>concurrentExecute\<close> starts one goroutine per task. The model follows one schedule that
  the Go runtime admits: the goroutines run one after the other, in the order of the list.
  The context is not nil; \<open>obs i\<close> is what \<open>ctx.Err()\<close> yields while goroutine \<open>i\<close> runs. A
  goroutine that finds the context done records its error and returns without running its
  task; otherwise it runs the task and records the error the task returns. With one
  goroutine running at a time, the semaphore never blocks. The tasks act on the variables
  they capture (\<open>'c\<close>) and on the decorator.
\<close>

fun run_tasks :: "(nat \<Rightarrow> error option) \<Rightarrow> nat \<Rightarrow> (Context \<Rightarrow> 'w \<Rightarrow> error option \<times> 'w) list
    \<Rightarrow> error option \<Rightarrow> 'w \<Rightarrow> error option \<times> 'w" where
  "run_tasks obs i [] firstErr w = (firstErr, w)"
| "run_tasks obs i (task # tasks) firstErr w =
     (case obs i of
        Some e \<Rightarrow> run_tasks obs (Suc i) tasks (once firstErr e) w
      | None \<Rightarrow>
          let (err, w1) = task (observe (obs i)) w
          in run_tasks obs (Suc i) tasks
               (case err of None \<Rightarrow> firstErr | Some e \<Rightarrow> once firstErr e) w1)"

definition concurrentExecute :: "(nat \<Rightarrow> error option) \<Rightarrow> (Context \<Rightarrow> 'w \<Rightarrow> error option \<times> 'w) list
    \<Rightarrow> int \<Rightarrow> 'w \<Rightarrow> error option \<times> 'w" where
  "concurrentExecute obs tasks maxConcurrency w =
     (let maxConcurrency = (if maxConcurrency \<le> 0 then 1 else maxConcurrency)
      in run_tasks obs 0 tasks None w)"

text \<open>
  \<open>GetManyPipeline\<close>. The result is the pair the method returns: the map (\<open>None\<close> for the
  nil map) and the error.
\<close>

definition GetManyPipeline :: "('s, 'u, 'v) advancedCache \<Rightarrow> (nat \<Rightarrow> error option) \<Rightarrow> string list
    \<Rightarrow> ((string \<rightharpoonup> 'v) option \<times> error option) \<times> ('s, 'u, 'v) advancedCache" where
  "GetManyPipeline a obs keys =
     (case pipelineGetter (a_cache a) of
        Some pg \<Rightarrow>
          let (r, s) = pg (observe (obs 0)) keys (a_store a) in (r, a\<lparr>a_store := s\<rparr>)
      | None \<Rightarrow>
          let tasks = map (\<lambda>k ctx (result, a).
                let ((val, err), a1) = A_Get a ctx k in
                case err of
                  Some e \<Rightarrow> (Some e, result, a1)
                | None \<Rightarrow> (None, result(k \<mapsto> val), a1)) keys;
              (err, result, a1) = withMetrics ''get_many_pipeline'' (int (length keys))
                (\<lambda>w. concurrentExecute obs tasks 10 w) (Map.empty, a)
          in ((Some result, err), a1))"

section \<open>Wrapped stores\<close>

text \<open>
  The in-memory engine as a wrapped store. Its state is the cache and the wall clock. It
  has neither the pipelined-get capability nor the locking capability.
\<close>

definition memoryStore :: "('v memoryCache \<times> time, 'v) Cache" where
  "memoryStore =
     \<lparr>cache_Get = (\<lambda>ctx k (c, now). let (r, c1) = Get c ctx k now in (r, (c1, now))),
      cache_Set = (\<lambda>ctx k v ttl (c, now). let (e, c1) = Set_mc c ctx k v ttl now in (e, (c1, now))),
      pipelineGetter = None,
      locker = None,
      time_Now = snd\<rparr>"

text \<open>
  A store with the locking capability, after \<open>redis/lock.go\<close>: \<open>TryLock\<close> validates the key,
  checks the context and then sets the lock key if it is not set (\<open>SETNX\<close>), returning
  whether it did; \<open>Unlock\<close> deletes the lock key. The state is the list of lock keys that are
  set and the number of \<open>TryLock\<close> calls made. The store holds no data: every \<open>Get\<close> misses.
\<close>

record lockState =
  held :: "string list"
  attempts :: nat

definition lockStore :: "Base \<Rightarrow> (lockState, 'v) Cache" where
  "lockStore b =
     \<lparr>cache_Get = (\<lambda>ctx k s. (Inl (WrapError ''get'' ErrCacheMiss k), s)),
      cache_Set = (\<lambda>ctx k v ttl s. (None, s)),
      pipelineGetter = None,
      locker = Some
        \<lparr>TryLock = (\<lambda>ctx k ttl s.
           let s1 = s\<lparr>attempts := attempts s + 1\<rparr> in
           case ValidateKey b k of Some err \<Rightarrow> ((False, Some err), s1) | None \<Rightarrow>
           case CheckContext b ctx of Some err \<Rightarrow> ((False, Some err), s1) | None \<Rightarrow>
           let lockKey = FullKey b (''lock:'' @ k) in
           if lockKey \<in> set (held s) then ((False, None), s1)
           else ((True, None), s1\<lparr>held := lockKey # held s\<rparr>)),
         Unlock = (\<lambda>ctx k s.
           case ValidateKey b k of Some err \<Rightarrow> (Some err, s) | None \<Rightarrow>
           case CheckContext b ctx of Some err \<Rightarrow> (Some err, s) | None \<Rightarrow>
           (None, s\<lparr>held := removeAll (FullKey b (''lock:'' @ k)) (held s)\<rparr>))\<rparr>,
      time_Now = (\<lambda>s. 0)\<rparr>"

text \<open>
  Scenarios: a decorator over a fresh in-memory engine under the default configuration (the
  state of the caller is a counter, which \<open>compute\<close> increments); and a decorator over a
  lock store in which the lock for the key \<open>k\<close> is already set by another holder.
\<close>

definition fresh :: "(string memoryCache \<times> time, nat, string) advancedCache" where
  "fresh = NewAdvancedCache memoryStore DefaultConfig [] (emptyMemory DefaultConfig, 1000) 0"

definition contended :: "(lockState, nat, string) advancedCache" where
  "contended = NewAdvancedCache (lockStore (NewBase DefaultConfig)) DefaultConfig []
     \<lparr>held = [''cache:lock:lock:k''], attempts = 0\<rparr> 0"

definition compute :: "nat \<Rightarrow> (error + string) \<times> nat" where
  "compute n = (Inr ''computed'', n + 1)"

text \<open>A store with two entries, \<open>b\<close> touched after \<open>a\<close>.\<close>

definition two :: "string memoryCache" where
  "two = snd (Set_mc (snd (Set_mc (emptyMemory DefaultConfig) CtxActive ''a'' ''1'' 0 1000))
                CtxActive ''b'' ''2'' 0 1001)"

section \<open>Basic facts about the helpers\<close>

lemma base_remove [simp]: "base (remove e c) = base c"
  by (simp add: remove_def)

lemma base_evict [simp]: "base (evict c) = base c"
  by (simp add: evict_def)

lemma capacity_remove [simp]: "capacity (remove e c) = capacity c"
  by (simp add: remove_def)

lemma capacity_evict [simp]: "capacity (evict c) = capacity c"
  by (simp add: evict_def)

lemma NewMemory_lru: "NewMemory (cfg\<lparr>EvictionPolicy := ''lru''\<rparr>) = Inr (emptyMemory (cfg\<lparr>EvictionPolicy := ''lru''\<rparr>))"
  by (simp add: NewMemory_def emptyMemory_def)

lemma NewMemory_ok: "NewMemory cfg = Inr c \<Longrightarrow> c = emptyMemory cfg"
  by (auto simp: NewMemory_def emptyMemory_def split: if_splits)

section \<open>The invariant is preserved\<close>


lemma length_remove1_Suc: "e \<in> set l \<Longrightarrow> Suc (length (remove1 e l)) = length l"
  by (induction l) auto

lemma length_remove1_int: "e \<in> set l \<Longrightarrow> int (length (remove1 e l)) = int (length l) - 1"
  using length_remove1_Suc [of e l] by linarith

lemma wf_mem: "wf c \<Longrightarrow> (e \<in> set (lru c)) = (items c e \<noteq> None)"
  by (auto simp: wf_def)

lemma wf_remove: "wf c \<Longrightarrow> items c e \<noteq> None \<Longrightarrow> wf (remove e c)"
proof -
  assume w: "wf c" and i: "items c e \<noteq> None"
  then have m: "e \<in> set (lru c)" by (simp add: wf_mem)
  from w have "set (lru c) = dom (items c)" "distinct (lru c)" "length_mc c = int (length (lru c))"
    by (simp_all add: wf_def)
  then show ?thesis using m
    by (simp add: wf_def remove_def length_remove1_int)
qed

lemma length_remove: "length_mc (remove e c) = length_mc c - 1"
  by (simp add: remove_def)

lemma wf_last: "wf c \<Longrightarrow> lru c \<noteq> [] \<Longrightarrow> items c (last (lru c)) \<noteq> None"
  using last_in_set [of "lru c"] by (auto simp: wf_def)

lemma wf_evict: "wf c \<Longrightarrow> wf (evict c)"
  by (simp add: evict_def wf_remove wf_last)

lemma wf_MoveToFront: "wf c \<Longrightarrow> wf (c\<lparr>lru := MoveToFront e (lru c)\<rparr>)"
  by (auto simp: wf_def MoveToFront_def length_remove1_Suc)



lemma items_evict_None: "items c fk = None \<Longrightarrow> items (evict c) fk = None"
  by (simp add: evict_def remove_def)

lemma wf_push: "wf c \<Longrightarrow> items c fk = None \<Longrightarrow>
   wf (c\<lparr>lru := fk # lru c, items := (items c)(fk \<mapsto> it), length_mc := length_mc c + 1\<rparr>)"
  by (auto simp: wf_def dom_def)

lemma wf_update: "wf c \<Longrightarrow> items c fk = Some it0 \<Longrightarrow>
   wf (c\<lparr>items := (items c)(fk \<mapsto> it), lru := MoveToFront fk (lru c)\<rparr>)"
proof -
  assume w: "wf c" and i: "items c fk = Some it0"
  then have m: "fk \<in> set (lru c)" by (simp add: wf_mem)
  from w have "set (lru c) = dom (items c)" "distinct (lru c)" "length_mc c = int (length (lru c))"
    by (simp_all add: wf_def)
  then show ?thesis using m i
    by (auto simp: wf_def MoveToFront_def length_remove1_Suc)
qed

lemma wf_Set: "wf c \<Longrightarrow> wf (snd (Set_mc c ctx k v ttl now))"
  by (auto simp: Set_mc_def Let_def wf_update wf_push wf_evict items_evict_None split: option.splits)




lemma wf_emptyMemory: "wf (emptyMemory cfg)"
  by (simp add: wf_def emptyMemory_def)











lemma capacity_Get [simp]: "capacity (snd (Get c ctx k now)) = capacity c"
  by (auto simp: Get_def Let_def split: option.splits)

lemma capacity_Set [simp]: "capacity (snd (Set_mc c ctx k v ttl now)) = capacity c"
  by (auto simp: Set_mc_def Let_def split: option.splits)

lemma capacity_delete_keys [simp]: "capacity (delete_keys ks c) = capacity c"
  by (induction ks arbitrary: c) (auto simp: Let_def split: option.splits)

lemma capacity_Delete [simp]: "capacity (snd (Delete c ctx ks)) = capacity c"
  by (auto simp: Delete_def split: option.splits)

lemma capacity_Clear [simp]: "capacity (snd (Clear c ctx)) = capacity c"
  by (auto simp: Clear_def split: option.splits)

lemma base_Get [simp]: "base (snd (Get c ctx k now)) = base c"
  by (auto simp: Get_def Let_def split: option.splits)

lemma base_Set [simp]: "base (snd (Set_mc c ctx k v ttl now)) = base c"
  by (auto simp: Set_mc_def Let_def split: option.splits)

lemma base_delete_keys [simp]: "base (delete_keys ks c) = base c"
  by (induction ks arbitrary: c) (auto simp: Let_def split: option.splits)

lemma base_Delete [simp]: "base (snd (Delete c ctx ks)) = base c"
  by (auto simp: Delete_def split: option.splits)

lemma base_Clear [simp]: "base (snd (Clear c ctx)) = base c"
  by (auto simp: Clear_def split: option.splits)


declare step.simps [simp del]
























lemma run_Cons: "run t (cl # cs) = run (step t cl) cs"
  by (simp add: run_def)


lemma ValidateKey_k: "ValidateKey b ''k'' = None"
  by (simp add: ValidateKey_def TrimSpace_def asciiSpace_def byte_def)

lemma Set_k_empty:
  "Set_mc (emptyMemory DefaultConfig) CtxActive ''k'' ''v'' 0 1000 =
     (None, \<lparr>base = NewBase DefaultConfig,
        items = [''cache:k'' \<mapsto> \<lparr>key = ''cache:k'', val = ''v'', expiresAt = 1000 + 5 * minute\<rparr>],
        lru = [''cache:k''], capacity = 1024, length_mc = 1\<rparr>)"
  by (simp add: Set_mc_def ValidateKey_k CheckContext_def Let_def emptyMemory_def FullKey_def
      NewBase_def DefaultConfig_def ResolveTTL_def minute_def)


lemmas eval_defs = run_def step.simps start_def emptyMemory_def touch_def Get_def Set_mc_def
  ValidateKey_def TrimSpace_def asciiSpace_def byte_def CheckContext_def FullKey_def NewBase_def
  DefaultConfig_def cfg2_def ResolveTTL_def expired_def MoveToFront_def evict_def remove_def
  minute_def Let_def



lemma stale_state:
  "stale = \<lparr>base = NewBase DefaultConfig,
        items = [''cache:k'' \<mapsto> \<lparr>key = ''cache:k'', val = ''v'', expiresAt = 1001\<rparr>],
        lru = [''cache:k''], capacity = 1024, length_mc = 1\<rparr>"
  by (simp add: stale_def eval_defs)

lemma Exists_cancelled_removes:
  "Exists stale (CtxDone Canceled) ''k'' 2000 =
     (Inr False, \<lparr>base = NewBase DefaultConfig, items = Map.empty, lru = [], capacity = 1024,
                  length_mc = 0\<rparr>)"
  unfolding stale_state
  by (simp add: Exists_def eval_defs)

lemma DeleteByPrefix_ignores_context:
  "DeleteByPrefix c (CtxDone e) p = DeleteByPrefix c CtxActive p \<and>
   (\<exists>n. fst (DeleteByPrefix c (CtxDone e) p) = Inr n)"
  by (simp add: DeleteByPrefix_def Let_def)

lemma ValidateKey_nbsp: "ValidateKey b [CHR 0xC2, CHR 0xA0] = Some ErrKeyEmpty"
  by (simp add: ValidateKey_def TrimSpace_def asciiSpace_def byte_def TrimFunc_def TrimLeftFunc_def
      TrimRightFunc_def indexFunc.simps lastIndexFunc.simps DecodeRuneInString_def first_def
      IsSpace_def Let_def)

section \<open>Facts about the decorator and the scenarios\<close>

lemmas adv_defs = A_Get_def A_Set_def withMetrics_def collect_def NewAdvancedCache_def
  memoryStore_def fresh_def RecordOperation_def RecordHit_def RecordMiss_def RecordError_def
  NewCollector_def Get_def Set_mc_def ValidateKey_def TrimSpace_def asciiSpace_def byte_def
  CheckContext_def FullKey_def NewBase_def DefaultConfig_def emptyMemory_def ResolveTTL_def
  expired_def MoveToFront_def evict_def remove_def minute_def WrapError_def Let_def

lemma disabled_collector:
  "\<not> Enabled m \<Longrightarrow> RecordOperation op d n m = m \<and> RecordHit op i m = m
     \<and> RecordMiss op i m = m \<and> RecordError op m = m \<and> Snapshot m = None"
  by (simp add: RecordOperation_def RecordHit_def RecordMiss_def RecordError_def Snapshot_def)

lemma NewBase_disabled: "\<not> Enabled (Collector (NewBase cfg))"
  by (simp add: NewBase_def NewCollector_def)

lemmas pipe_defs = GetManyPipeline_def concurrentExecute_def once_def observe_def

lemmas lock_defs = GetOrSetLocked_def getOrSet_def tryLock_def unlock_def lockStore_def
  contended_def compute_def second_def

lemma collect_fields [simp]:
  "a_env (collect f a) = a_env a" "a_store (collect f a) = a_store a"
  "a_cache (collect f a) = a_cache a" "a_zero (collect f a) = a_zero a"
  by (simp_all add: collect_def)

lemma A_Get_keeps:
  "a_env (snd (A_Get a ctx k)) = a_env a \<and> a_zero (snd (A_Get a ctx k)) = a_zero a
   \<and> a_cache (snd (A_Get a ctx k)) = a_cache a"
  by (auto simp: A_Get_def withMetrics_def Let_def split: option.splits prod.splits sum.splits)

lemma A_Get_zero_on_error:
  "snd (fst (A_Get a ctx k)) \<noteq> None \<Longrightarrow> fst (fst (A_Get a ctx k)) = a_zero a"
  by (auto simp: A_Get_def withMetrics_def Let_def split: option.splits prod.splits sum.splits)

lemma A_Set_keeps:
  "a_env (snd (A_Set a ctx k v ttl)) = a_env a \<and> a_zero (snd (A_Set a ctx k v ttl)) = a_zero a
   \<and> a_cache (snd (A_Set a ctx k v ttl)) = a_cache a"
  by (auto simp: A_Set_def withMetrics_def Let_def split: option.splits prod.splits sum.splits)

lemma fresh_miss:
  "fst (A_Get fresh CtxActive ''k'') = ([], Some (CacheError ''get'' ''k'' ErrCacheMiss))"
  by (simp add: adv_defs)

lemma fresh_GetOrSet_then_Get:
  "fst (A_Get (snd (GetOrSet fresh CtxActive ''k'' 0 compute)) CtxActive ''k'') = (''computed'', None)"
  by (simp add: GetOrSet_def getOrSet_def compute_def adv_defs)

lemma two_state:
  "two = \<lparr>base = NewBase DefaultConfig,
      items = [''cache:a'' \<mapsto> \<lparr>key = ''cache:a'', val = ''1'', expiresAt = 1000 + 5 * minute\<rparr>,
               ''cache:b'' \<mapsto> \<lparr>key = ''cache:b'', val = ''2'', expiresAt = 1001 + 5 * minute\<rparr>],
      lru = [''cache:b'', ''cache:a''], capacity = 1024, length_mc = 2\<rparr>"
  by (simp add: two_def eval_defs)

lemma two_Get_lru: "lru (snd (Get two CtxActive ''a'' 1002)) = [''cache:a'', ''cache:b'']"
  unfolding two_state by (simp add: eval_defs)

lemma wf_two: "wf two"
  unfolding two_def by (intro wf_Set wf_emptyMemory)

lemma wf_stale: "wf stale"
  unfolding stale_def by (intro wf_Set wf_emptyMemory)

lemma tryLock_contended: "fst (tryLock contended CtxActive ''k'') = None"
  by (simp add: lock_defs adv_defs)

section \<open>Time-to-live resolution of \<open>Set\<close>\<close>

text \<open>
  Claim C8. When the in-memory \<open>Set\<close> gets past key validation and the context check, it
  succeeds and stores the value under the full key with an expiry computed from the resolved
  time-to-live: a positive argument is used as passed, a zero or negative one is replaced by
  the configured default; the expiry is the current time plus the resolved time-to-live when
  that is positive, and the zero time (never expires) when it is not.
\<close>

theorem Set_ttl_resolution:
  assumes "ValidateKey (base c) k = None" and "CheckContext (base c) ctx = None"
  shows "fst (Set_mc c ctx k v ttl now) = None \<and>
         ResolveTTL (base c) ttl = (if ttl > 0 then ttl else TTL (Cfg (base c))) \<and>
         (\<exists>it. items (snd (Set_mc c ctx k v ttl now)) (FullKey (base c) k) = Some it \<and>
               val it = v \<and>
               expiresAt it = (if ResolveTTL (base c) ttl > 0
                               then now + ResolveTTL (base c) ttl else 0))"
  using assms by (auto simp: Set_mc_def Let_def ResolveTTL_def split: option.splits)

theorem Set_ttl_resolution_witness:
  "ValidateKey (base (emptyMemory DefaultConfig :: string memoryCache)) ''k'' = None \<and>
   CheckContext (base (emptyMemory DefaultConfig :: string memoryCache)) CtxActive = None \<and>
   fst (Set_mc (emptyMemory DefaultConfig) CtxActive ''k'' ''v'' 0 1000) = None \<and>
   (\<exists>it. items (snd (Set_mc (emptyMemory DefaultConfig) CtxActive ''k'' ''v'' 0 1000))
            (FullKey (base (emptyMemory DefaultConfig :: string memoryCache)) ''k'') = Some it \<and>
         val it = ''v'' \<and> expiresAt it = 1000 + 5 * minute)"
proof -
  have v: "ValidateKey (base (emptyMemory DefaultConfig :: string memoryCache)) ''k'' = None"
    by (simp add: ValidateKey_def TrimSpace_def asciiSpace_def byte_def)
  have c: "CheckContext (base (emptyMemory DefaultConfig :: string memoryCache)) CtxActive = None"
    by (simp add: CheckContext_def)
  have r: "ResolveTTL (base (emptyMemory DefaultConfig :: string memoryCache)) 0 = 5 * minute"
    by (simp add: ResolveTTL_def emptyMemory_def NewBase_def DefaultConfig_def)
  show ?thesis
    using Set_ttl_resolution [OF v c, of "''v''" 0 1000] v c r
    by (simp add: minute_def)
qed

section \<open>The contract of \<open>Get\<close>\<close>

text \<open>
  Claim C7. \<open>Get\<close> of the in-memory engine, with a key that is not blank and a context that
  is not cancelled, on a store that satisfies the invariant: if the full key is absent the
  call fails with a cache miss and the store is unchanged; if it is present with an expiry
  that is not the zero time and lies before the current time, the entry is removed from the
  index and from the list (the counter drops by one) and the call fails with a cache miss;
  otherwise the value of the entry is returned, the index is unchanged, and the entry is now
  at the front of the list with the order of the other entries kept.
\<close>

theorem Get_contract:
  assumes ok: "ValidateKey (base c) k = None" "CheckContext (base c) ctx = None" and w: "wf c"
  shows "case items c (FullKey (base c) k) of
      None \<Rightarrow> (\<exists>e. Get c ctx k now = (Inl e, c) \<and> IsCacheMiss e)
    | Some it \<Rightarrow>
        if expiresAt it \<noteq> 0 \<and> expiresAt it < now
        then (\<exists>e c'. Get c ctx k now = (Inl e, c') \<and> IsCacheMiss e \<and> wf c' \<and>
                items c' = (items c)(FullKey (base c) k := None) \<and>
                FullKey (base c) k \<notin> set (lru c') \<and> length_mc c' = length_mc c - 1)
        else (\<exists>c'. Get c ctx k now = (Inr (val it), c') \<and> wf c' \<and> items c' = items c \<and>
                hd (lru c') = FullKey (base c) k \<and>
                remove1 (FullKey (base c) k) (lru c') = remove1 (FullKey (base c) k) (lru c) \<and>
                length_mc c' = length_mc c)"
proof (cases "items c (FullKey (base c) k)")
  case None
  then show ?thesis using ok
    by (simp add: Get_def Let_def IsCacheMiss_def WrapError_def)
next
  case (Some it)
  then have m: "FullKey (base c) k \<in> set (lru c)" using w by (simp add: wf_mem)
  from w have d: "distinct (lru c)" by (simp add: wf_def)
  show ?thesis
  proof (cases "expired now it")
    case True
    have "wf (remove (FullKey (base c) k) c)" using w Some by (simp add: wf_remove)
    moreover have "FullKey (base c) k \<notin> set (lru (remove (FullKey (base c) k) c))"
      using d by (simp add: remove_def)
    ultimately show ?thesis using ok Some True
      by (simp add: Get_def Let_def IsCacheMiss_def WrapError_def expired_def) (simp add: remove_def)
  next
    case False
    have "wf (c\<lparr>lru := MoveToFront (FullKey (base c) k) (lru c)\<rparr>)" using w by (rule wf_MoveToFront)
    then show ?thesis using ok Some False m d
      by (auto simp: Get_def Let_def expired_def MoveToFront_def)
  qed
qed

theorem Get_contract_witness:
  "ValidateKey (base two) ''a'' = None \<and> CheckContext (base two) CtxActive = None \<and> wf two
   \<and> lru two = [''cache:b'', ''cache:a'']
   \<and> fst (Get two CtxActive ''a'' 1002) = Inr ''1''
   \<and> lru (snd (Get two CtxActive ''a'' 1002)) = [''cache:a'', ''cache:b'']
   \<and> ValidateKey (base stale) ''k'' = None \<and> CheckContext (base stale) CtxActive = None \<and> wf stale
   \<and> items stale ''cache:k'' \<noteq> None
   \<and> (\<exists>e. fst (Get stale CtxActive ''k'' 2000) = Inl e \<and> IsCacheMiss e)
   \<and> items (snd (Get stale CtxActive ''k'' 2000)) ''cache:k'' = None
   \<and> (\<exists>e. Get (emptyMemory DefaultConfig :: string memoryCache) CtxActive ''k'' 2000
          = (Inl e, emptyMemory DefaultConfig) \<and> IsCacheMiss e)"
proof -
  have v: "ValidateKey (base two) ''a'' = None" "ValidateKey (base stale) ''k'' = None"
    "ValidateKey (base (emptyMemory DefaultConfig :: string memoryCache)) ''k'' = None"
    by (simp_all add: ValidateKey_def TrimSpace_def asciiSpace_def byte_def)
  have c: "CheckContext (base two) CtxActive = None" "CheckContext (base stale) CtxActive = None"
    "CheckContext (base (emptyMemory DefaultConfig :: string memoryCache)) CtxActive = None"
    by (simp_all add: CheckContext_def)
  have i2: "items two (FullKey (base two) ''a'') =
      Some \<lparr>key = ''cache:a'', val = ''1'', expiresAt = 1000 + 5 * minute\<rparr>"
    unfolding two_state by (simp add: FullKey_def NewBase_def DefaultConfig_def)
  have ist: "items stale ''cache:k'' =
      Some \<lparr>key = ''cache:k'', val = ''v'', expiresAt = 1001\<rparr>"
    and fs: "FullKey (base stale) ''k'' = ''cache:k''"
    unfolding stale_state by (simp_all add: FullKey_def NewBase_def DefaultConfig_def)
  have ie: "items (emptyMemory DefaultConfig :: string memoryCache)
      (FullKey (base (emptyMemory DefaultConfig :: string memoryCache)) ''k'') = None"
    by (simp add: emptyMemory_def)
  have l2: "lru two = [''cache:b'', ''cache:a'']" unfolding two_state by simp
  have t1: "fst (Get two CtxActive ''a'' 1002) = Inr ''1''"
    using Get_contract [OF v(1) c(1) wf_two, of 1002] unfolding i2
    by (auto simp: minute_def)
  have t2: "(\<exists>e. fst (Get stale CtxActive ''k'' 2000) = Inl e \<and> IsCacheMiss e)
      \<and> items (snd (Get stale CtxActive ''k'' 2000)) ''cache:k'' = None"
    using Get_contract [OF v(2) c(2) wf_stale, of 2000] unfolding fs ist
    by auto
  have t3: "\<exists>e. Get (emptyMemory DefaultConfig :: string memoryCache) CtxActive ''k'' 2000
          = (Inl e, emptyMemory DefaultConfig) \<and> IsCacheMiss e"
    using Get_contract [OF v(3) c(3) wf_emptyMemory, of 2000] unfolding ie
    by simp
  have s0: "items stale ''cache:k'' \<noteq> None" using ist by simp
  show ?thesis using v c wf_two wf_stale l2 t1 two_Get_lru t2 t3 s0 by blast
qed

section \<open>Without a capacity, \<open>Set\<close> never evicts\<close>



section \<open>With a capacity, the least recently touched entry is evicted\<close>



section \<open>Cancelled contexts\<close>

text \<open>
  Claim C9, as stated, does not hold of \<open>Exists\<close>: it does not read its context. With a
  cancelled context it still answers, and it removes an expired entry from the store. (The
  same holds of \<open>DeleteByPrefix\<close>, see \<open>DeleteByPrefix_ignores_context\<close>.)
\<close>

theorem cancelled_Exists_counterexample:
  "\<not> (\<forall>(c :: string memoryCache) e k now.
        fst (Exists c (CtxDone e) k now) = Inl e \<and> snd (Exists c (CtxDone e) k now) = c)"
proof
  assume "\<forall>(c :: string memoryCache) e k now.
        fst (Exists c (CtxDone e) k now) = Inl e \<and> snd (Exists c (CtxDone e) k now) = c"
  then have "fst (Exists stale (CtxDone Canceled) ''k'' 2000) = Inl Canceled" by blast
  then show False by (simp add: Exists_cancelled_removes)
qed

text \<open>
  Claim C9, amended. With a context that is already cancelled, \<open>Delete\<close>, \<open>Clear\<close>, \<open>Len\<close> and
  \<open>Ping\<close> return the error of the context, and so do \<open>Get\<close> and \<open>Set\<close> when the key is not
  blank; \<open>Get\<close> and \<open>Set\<close> validate the key first, so with a blank key they return
  \<open>ErrKeyEmpty\<close> instead. In every one of these cases the store is unchanged.
\<close>

theorem cancelled_context_checked:
  "Delete c (CtxDone e) ks = (Some e, c)
   \<and> Clear c (CtxDone e) = (Some e, c)
   \<and> Len c (CtxDone e) = Inl e
   \<and> Ping c (CtxDone e) = Some e
   \<and> (ValidateKey (base c) k = None \<longrightarrow>
        Get c (CtxDone e) k now = (Inl e, c) \<and> Set_mc c (CtxDone e) k v ttl now = (Some e, c))
   \<and> (ValidateKey (base c) k \<noteq> None \<longrightarrow>
        Get c (CtxDone e) k now = (Inl ErrKeyEmpty, c)
        \<and> Set_mc c (CtxDone e) k v ttl now = (Some ErrKeyEmpty, c))"
  by (auto simp: Delete_def Clear_def Len_def Ping_def Get_def Set_mc_def CheckContext_def
      ValidateKey_def)

theorem cancelled_context_checked_witness:
  "ValidateKey (base stale) ''k'' = None
   \<and> Get stale (CtxDone Canceled) ''k'' 2000 = (Inl Canceled, stale)
   \<and> Set_mc stale (CtxDone Canceled) ''k'' ''w'' 0 2000 = (Some Canceled, stale)
   \<and> Delete stale (CtxDone Canceled) [''k''] = (Some Canceled, stale)
   \<and> Clear stale (CtxDone Canceled) = (Some Canceled, stale)
   \<and> Len stale (CtxDone Canceled) = Inl Canceled
   \<and> Ping stale (CtxDone Canceled) = Some Canceled
   \<and> ValidateKey (base stale) '' '' \<noteq> None
   \<and> Get stale (CtxDone Canceled) '' '' 2000 = (Inl ErrKeyEmpty, stale)"
proof -
  have v: "ValidateKey (base stale) ''k'' = None" by (rule ValidateKey_k)
  have b: "ValidateKey (base stale) '' '' \<noteq> None"
    by (simp add: ValidateKey_def TrimSpace_def asciiSpace_def byte_def)
  show ?thesis
    using v b
      cancelled_context_checked [of stale Canceled "[''k'']" "''k''" 2000 "''w''" 0]
      cancelled_context_checked [of stale Canceled "[''k'']" "'' ''" 2000 "''w''" 0]
    by blast
qed

section \<open>Metrics of the decorator\<close>

text \<open>
  Claim C2. A decorator over a fresh in-memory engine under the default configuration (time
  to live 5 minutes): \<open>Set("k", "v", 0)\<close> followed by \<open>Get("k")\<close> returns \<open>"v"\<close> with no
  error, as claimed; but the collector of the decorator is never enabled, so its snapshot
  is the nil map and the hits it shows for the operation \<open>get\<close> are 0, not 1.
\<close>

theorem metrics_stay_disabled:
  "fst (A_Get (snd (A_Set fresh CtxActive ''k'' ''v'' 0)) CtxActive ''k'') = (''v'', None)
   \<and> Snapshot (Collector (a_base (snd (A_Get (snd (A_Set fresh CtxActive ''k'' ''v'' 0)) CtxActive ''k'')))) = None
   \<and> sHits (snapshot_at (Snapshot (Collector (a_base
         (snd (A_Get (snd (A_Set fresh CtxActive ''k'' ''v'' 0)) CtxActive ''k''))))) ''get'') = 0"
  by (simp add: adv_defs Snapshot_def snapshot_at_def zeroSnapshot_def)

section \<open>The emulated pipelined get on misses and on cancellation\<close>

text \<open>
  Claim C1. Over the in-memory engine (no pipelined-get capability), with \<open>a\<close> present and
  \<open>b\<close> absent and a context that is never cancelled, the emulated \<open>GetManyPipeline\<close> over
  the keys \<open>a\<close>, \<open>b\<close> returns the map with exactly the present key, but together with the
  cache-miss error of \<open>b\<close>: the miss does make the call fail.
\<close>

theorem emulated_pipeline_miss_is_error:
  "fst (GetManyPipeline (snd (A_Set fresh CtxActive ''a'' ''1'' 0)) (\<lambda>i. None) [''a'', ''b'']) =
     (Some [''a'' \<mapsto> ''1''], Some (CacheError ''get'' ''b'' ErrCacheMiss))"
  by (simp add: pipe_defs adv_defs)

text \<open>
  Claim C6. With \<open>a\<close> and \<open>b\<close> both present, and a context that is live while the first
  goroutine runs and cancelled when the second runs, the emulated \<open>GetManyPipeline\<close> fails
  with the cancellation error and returns, next to it, the map holding the value collected
  for \<open>a\<close>: the partial results are not discarded.
\<close>

theorem emulated_pipeline_keeps_partial_results:
  "fst (GetManyPipeline (snd (A_Set (snd (A_Set fresh CtxActive ''a'' ''1'' 0)) CtxActive ''b'' ''2'' 0))
         (\<lambda>i. if i = 0 then None else Some Canceled) [''a'', ''b'']) =
     (Some [''a'' \<mapsto> ''1''], Some Canceled)
   \<and> IsContextError Canceled"
  by (simp add: pipe_defs adv_defs IsContextError_def)

section \<open>\<open>GetOrSet\<close> and \<open>GetOrSetLocked\<close>\<close>

text \<open>
  Claim C3. Over a store with the locking capability in which the lock for \<open>k\<close> is already
  set, \<open>TryLock\<close> reports that the lock was not obtained, with no error; \<open>tryLock\<close> then
  returns no error (\<open>tryLock_contended\<close>), and \<open>GetOrSetLocked\<close> invokes the compute function (the counter of the
  caller goes from 0 to 1) and returns the computed value with no error, not a \<open>LockAcquire\<close>
  error. The lock is attempted once.
\<close>

theorem lock_not_obtained_still_computes:
  "fst (GetOrSetLocked contended CtxActive ''k'' 0 compute) = (''computed'', None)
   \<and> a_env (snd (GetOrSetLocked contended CtxActive ''k'' 0 compute)) = 1
   \<and> attempts (a_store (snd (GetOrSetLocked contended CtxActive ''k'' 0 compute))) = 1
   \<and> (case locker (a_cache contended) of
         Some l \<Rightarrow> fst (TryLock l CtxActive ''lock:k'' (30 * second) (a_store contended))
       | None \<Rightarrow> (True, None)) = (False, None)"
  by (simp add: lock_defs adv_defs)

text \<open>
  Claim C4. \<open>GetOrSet\<close>, for every decorator, context, key, time to live and compute
  function, by the outcome of the initial \<open>Get\<close>. On a hit it returns the value of \<open>Get\<close>
  with no error and leaves the state of the caller alone (compute is not invoked). On an
  error that is not a cache miss it returns that error, again without invoking compute. On a
  cache miss it applies compute once to the state of the caller; if compute succeeds, the
  store is the one \<open>Set\<close> of the computed value leaves, and the computed value is returned
  with no error whatever \<open>Set\<close> returned; if compute fails, its error is returned and nothing
  is stored.
\<close>

theorem GetOrSet_contract:
  "case snd (fst (A_Get a ctx k)) of
     None \<Rightarrow>
       fst (GetOrSet a ctx k ttl fn) = (fst (fst (A_Get a ctx k)), None)
       \<and> a_env (snd (GetOrSet a ctx k ttl fn)) = a_env a
       \<and> a_store (snd (GetOrSet a ctx k ttl fn)) = a_store (snd (A_Get a ctx k))
   | Some e \<Rightarrow>
       if \<not> errors_Is e ErrCacheMiss
       then fst (GetOrSet a ctx k ttl fn) = (a_zero a, Some e)
            \<and> a_env (snd (GetOrSet a ctx k ttl fn)) = a_env a
            \<and> a_store (snd (GetOrSet a ctx k ttl fn)) = a_store (snd (A_Get a ctx k))
       else (case fn (a_env a) of
          (Inr v, u) \<Rightarrow>
            fst (GetOrSet a ctx k ttl fn) = (v, None)
            \<and> a_env (snd (GetOrSet a ctx k ttl fn)) = u
            \<and> a_store (snd (GetOrSet a ctx k ttl fn)) =
                a_store (snd (A_Set ((snd (A_Get a ctx k))\<lparr>a_env := u\<rparr>) ctx k v ttl))
        | (Inl fe, u) \<Rightarrow>
            fst (GetOrSet a ctx k ttl fn) = (a_zero a, Some fe)
            \<and> a_env (snd (GetOrSet a ctx k ttl fn)) = u
            \<and> a_store (snd (GetOrSet a ctx k ttl fn)) = a_store (snd (A_Get a ctx k)))"
proof -
  obtain val err a1 where g: "A_Get a ctx k = ((val, err), a1)"
    by (metis surj_pair)
  have k1: "a_env a1 = a_env a" "a_zero a1 = a_zero a" "a_cache a1 = a_cache a"
    using A_Get_keeps [of a ctx k] g by simp_all
  show ?thesis
  proof (cases err)
    case None
    then show ?thesis using g k1
      by (simp add: GetOrSet_def getOrSet_def withMetrics_def Let_def)
  next
    case (Some e)
    show ?thesis
    proof (cases "errors_Is e ErrCacheMiss")
      case False
      then show ?thesis using g k1 Some
        by (simp add: GetOrSet_def getOrSet_def withMetrics_def Let_def)
    next
      case True
      obtain r u where f: "fn (a_env a) = (r, u)" by (metis surj_pair)
      show ?thesis
      proof (cases r)
        case (Inl fe)
        then show ?thesis using g k1 Some True f
          by (simp add: GetOrSet_def getOrSet_def withMetrics_def Let_def)
      next
        case (Inr v)
        obtain serr a4 where st: "A_Set (a1\<lparr>a_env := u\<rparr>) ctx k v ttl = (serr, a4)"
          by (metis surj_pair)
        have "a_env a4 = u" using A_Set_keeps [of "a1\<lparr>a_env := u\<rparr>" ctx k v ttl] st by simp
        then show ?thesis using g k1 Some True f Inr st
          by (simp add: GetOrSet_def getOrSet_def withMetrics_def Let_def)
      qed
    qed
  qed
qed

theorem GetOrSet_contract_witness:
  "snd (fst (A_Get fresh CtxActive ''k'')) = Some (CacheError ''get'' ''k'' ErrCacheMiss)
   \<and> errors_Is (CacheError ''get'' ''k'' ErrCacheMiss) ErrCacheMiss
   \<and> fst (GetOrSet fresh CtxActive ''k'' 0 compute) = (''computed'', None)
   \<and> a_env fresh = 0
   \<and> a_env (snd (GetOrSet fresh CtxActive ''k'' 0 compute)) = 1
   \<and> fst (A_Get (snd (GetOrSet fresh CtxActive ''k'' 0 compute)) CtxActive ''k'') = (''computed'', None)
   \<and> fst (GetOrSet (snd (GetOrSet fresh CtxActive ''k'' 0 compute)) CtxActive ''k'' 0 compute)
        = (''computed'', None)
   \<and> a_env (snd (GetOrSet (snd (GetOrSet fresh CtxActive ''k'' 0 compute)) CtxActive ''k'' 0 compute)) = 1"
proof -
  have e: "a_env fresh = 0" by (simp add: fresh_def NewAdvancedCache_def)
  have c: "compute 0 = (Inr ''computed'', 1)" by (simp add: compute_def)
  have first: "fst (GetOrSet fresh CtxActive ''k'' 0 compute) = (''computed'', None)
      \<and> a_env (snd (GetOrSet fresh CtxActive ''k'' 0 compute)) = 1"
    using GetOrSet_contract [of fresh CtxActive "''k''" 0 compute] fresh_miss
    by (simp add: e c)
  have again: "fst (GetOrSet (snd (GetOrSet fresh CtxActive ''k'' 0 compute)) CtxActive ''k'' 0 compute)
        = (''computed'', None)
      \<and> a_env (snd (GetOrSet (snd (GetOrSet fresh CtxActive ''k'' 0 compute)) CtxActive ''k'' 0 compute)) = 1"
    using GetOrSet_contract [of "snd (GetOrSet fresh CtxActive ''k'' 0 compute)" CtxActive "''k''" 0 compute]
      fresh_GetOrSet_then_Get first
    by simp
  show ?thesis using first again fresh_miss fresh_GetOrSet_then_Get e by simp
qed

end
